theory Spec2Isabelle
  imports Main
begin

section \<open>Camera feed viewer (App.tsx): data model\<close>

text \<open>
  The component \<open>App\<close> of \<open>src/App.tsx\<close> is embedded as state passing over one record,
  \<open>world\<close>: the React state of the component, its three refs, and the part of the
  browser the component talks to (the live media tracks, the document's fullscreen element,
  the \<open>getUserMedia\<close> promises still in flight). Every handler, effect body and effect
  cleanup of the source is a function \<open>world \<Rightarrow> world\<close>; what the browser answers (a promise
  resolved or rejected, a fullscreen request granted or refused) is an argument.
\<close>

subsection \<open>Constants (App.tsx 5-10)\<close>

record resolution =
  label :: string
  width :: nat
  height :: nat

definition RESOLUTIONS :: "resolution list" where
  "RESOLUTIONS =
     [\<lparr>label = ''480p (640x480)'', width = 640, height = 480\<rparr>,
      \<lparr>label = ''720p (1280x720)'', width = 1280, height = 720\<rparr>,
      \<lparr>label = ''1080p (1920x1080)'', width = 1920, height = 1080\<rparr>,
      \<lparr>label = ''4K (3840x2160)'', width = 3840, height = 2160\<rparr>]"

subsection \<open>Values of the language and of the browser\<close>

text \<open>
  A JavaScript number as far as this program reads one: \<open>NaN\<close> or an integer. (A double
  rounds integers beyond \<open>2^53\<close>; such a value is far outside every array of the program.)
\<close>

datatype number = NaN | Num int

text \<open>
  \<open>parseInt(string, 10)\<close> of ECMAScript: leading white space is dropped, one sign is read,
  then the longest run of decimal digits; no digit gives \<open>NaN\<close>. Characters are bytes here,
  so the white space is the ASCII part of the language's set.
\<close>

definition isWhiteSpace :: "char \<Rightarrow> bool" where
  "isWhiteSpace c = (c \<in> set [CHR 0x09, CHR 0x0A, CHR 0x0B, CHR 0x0C, CHR 0x0D, CHR 0x20])"

definition isDigit :: "char \<Rightarrow> bool" where
  "isDigit c = (48 \<le> (of_char c :: nat) \<and> (of_char c :: nat) \<le> 57)"

definition digitsValue :: "string \<Rightarrow> nat" where
  "digitsValue Z = foldl (\<lambda>acc c. 10 * acc + (of_char c - 48)) 0 Z"

definition parseInt :: "string \<Rightarrow> number" where
  "parseInt inputString =
     (let S = dropWhile isWhiteSpace inputString;
          sign = (case S of [] \<Rightarrow> 1 | c # _ \<Rightarrow> if c = CHR ''-'' then - 1 else (1::int));
          S' = (case S of [] \<Rightarrow> S
                | c # rest \<Rightarrow> if c = CHR ''+'' \<or> c = CHR ''-'' then rest else S);
          Z = takeWhile isDigit S'
      in if Z = [] then NaN else Num (sign * int (digitsValue Z)))"

text \<open>
  \<open>array[n]\<close> for a number \<open>n\<close>: the element when \<open>n\<close> is an integer index of the array,
  \<open>undefined\<close> (\<open>None\<close>) for every other number; the language raises nothing here.
\<close>

definition js_index :: "'a list \<Rightarrow> number \<Rightarrow> 'a option" where
  "js_index xs n =
     (case n of
        NaN \<Rightarrow> None
      | Num i \<Rightarrow> if 0 \<le> i \<and> nat i < length xs then Some (xs ! nat i) else None)"

datatype MediaDeviceKind = audioinput | audiooutput | videoinput

record MediaDeviceInfo =
  deviceId :: string
  kind :: MediaDeviceKind
  deviceLabel :: string
  groupId :: string

text \<open>A track is known by its identity; a stream is the list of its tracks.\<close>

type_synonym MediaStreamTrack = nat

record MediaStream =
  streamId :: string
  tracks :: "MediaStreamTrack list"

text \<open>The \<open>video\<close> constraints that \<open>getStream\<close> builds (App.tsx 192-198).\<close>

record MediaStreamConstraints =
  deviceIdExact :: string
  widthIdeal :: nat
  heightIdeal :: nat

text \<open>
  What a \<open>catch\<close> clause receives: an object that is an \<open>Error\<close>, with its \<open>name\<close>, or
  any other value. A settled promise is resolved with a value or rejected with a thrown one.
\<close>

datatype thrown = ErrorObject string | NonError

datatype 'a settled = Resolved 'a | Rejected thrown

datatype element = PlayerContainer | OtherElement

record HTMLVideoElement =
  srcObject :: "MediaStream option"

datatype fullscreen_request = RequestFullscreen element | ExitFullscreen

subsection \<open>The component's state, its refs and the browser (App.tsx 136-144)\<close>

record world =
  \<comment> \<open>React state\<close>
  devices :: "MediaDeviceInfo list"
  selectedDeviceId :: string
  selectedResolution :: "resolution option"
  error :: "string option"
  hasStream :: bool
  isFullscreen :: bool
  \<comment> \<open>refs (\<open>None\<close> is a \<open>null\<close> \<open>current\<close>)\<close>
  videoRef :: "HTMLVideoElement option"
  streamRef :: "MediaStream option"
  playerContainerRef :: "element option"
  \<comment> \<open>the browser\<close>
  liveTracks :: "MediaStreamTrack set"
  pendingGetUserMedia :: "MediaStreamConstraints list"
  fullscreenElement :: "element option"
  exitFullscreenDefined :: bool
  fullscreenchangeListener :: bool

text \<open>The values of the \<open>useState\<close> and \<open>useRef\<close> calls, in a browser that holds nothing yet.\<close>

definition initialWorld :: world where
  "initialWorld =
     \<lparr>devices = [], selectedDeviceId = [], selectedResolution = Some (RESOLUTIONS ! 1),
      error = None, hasStream = False, isFullscreen = False,
      videoRef = None, streamRef = None, playerContainerRef = None,
      liveTracks = {}, pendingGetUserMedia = [], fullscreenElement = None,
      exitFullscreenDefined = True, fullscreenchangeListener = False\<rparr>"

subsection \<open>Error messages\<close>

definition permissionDeniedMessage :: string where
  "permissionDeniedMessage =
     ''Camera access was denied. Please grant permission in your browser settings and refresh the page.''"

definition deviceAccessMessage :: string where
  "deviceAccessMessage =
     ''Could not access camera devices. Please ensure you have a camera connected and permissions are allowed.''"

definition unknownErrorMessage :: string where
  "unknownErrorMessage = ''An unknown error occurred while accessing media devices.''"

definition noDevicesMessage :: string where
  "noDevicesMessage = ''No camera devices found.''"

definition unsupportedMessage :: string where
  "unsupportedMessage = ''Your browser does not support camera access.''"

definition streamStartFailedMessage :: string where
  "streamStartFailedMessage =
     ''Error starting video stream. Please try another device or check permissions.''"

section \<open>The operations\<close>

subsection \<open>Tracks\<close>

text \<open>
  The browser hands out a stream with its tracks live; \<open>stream.getTracks().forEach(track
  => track.stop())\<close> ends every track of that stream and no other.
\<close>

definition deliverStream :: "MediaStream \<Rightarrow> world \<Rightarrow> world" where
  "deliverStream stream w = w\<lparr>liveTracks := liveTracks w \<union> set (tracks stream)\<rparr>"

definition stopTracks :: "MediaStream \<Rightarrow> world \<Rightarrow> world" where
  "stopTracks stream w = w\<lparr>liveTracks := liveTracks w - set (tracks stream)\<rparr>"

subsection \<open>The stream effect (App.tsx 185-221)\<close>

text \<open>The cleanup the effect returns (216-220).\<close>

definition streamEffectCleanup :: "world \<Rightarrow> world" where
  "streamEffectCleanup w =
     (case streamRef w of None \<Rightarrow> w | Some stream \<Rightarrow> stopTracks stream w)"

text \<open>
  The body of the effect (186-214). \<open>getStream\<close> builds its constraints before its
  \<open>try\<close>: with an undefined resolution the read of \<open>selectedResolution.width\<close> throws
  there and no request reaches the browser. Otherwise the call of \<open>getUserMedia\<close> leaves
  a promise in flight, and the rest of \<open>getStream\<close> runs when it settles.
\<close>

definition streamEffect :: "world \<Rightarrow> world" where
  "streamEffect w =
     (let w1 = (case streamRef w of None \<Rightarrow> w | Some stream \<Rightarrow> stopTracks stream w)
      in if selectedDeviceId w1 \<noteq> [] then
           (case selectedResolution w1 of
              None \<Rightarrow> w1
            | Some res \<Rightarrow>
                w1\<lparr>pendingGetUserMedia := pendingGetUserMedia w1 @
                     [\<lparr>deviceIdExact = selectedDeviceId w1,
                       widthIdeal = width res, heightIdeal = height res\<rparr>]\<rparr>)
         else w1)"

text \<open>
  React after a state update: the effect depends on \<open>[selectedDeviceId,
  selectedResolution]\<close>; when either differs from its value at the last render, the
  cleanup of the last run is called and then the body again. \<open>commit w w'\<close> takes the
  world before the update and the one after it.
\<close>

definition commit :: "world \<Rightarrow> world \<Rightarrow> world" where
  "commit w w' =
     (if selectedDeviceId w' = selectedDeviceId w \<and> selectedResolution w' = selectedResolution w
      then w'
      else streamEffect (streamEffectCleanup w'))"

text \<open>
  The rest of \<open>getStream\<close> (200-210), when the \<open>i\<close>-th promise in flight settles: the
  \<open>try\<close> branch on a stream, the \<open>catch\<close> branch on a rejection.
\<close>

definition getStreamSettled :: "nat \<Rightarrow> MediaStream settled \<Rightarrow> world \<Rightarrow> world" where
  "getStreamSettled i outcome w =
     (if i < length (pendingGetUserMedia w) then
        (let w1 = w\<lparr>pendingGetUserMedia :=
                      take i (pendingGetUserMedia w) @ drop (Suc i) (pendingGetUserMedia w)\<rparr>
         in case outcome of
              Resolved stream \<Rightarrow>
                (let w2 = (deliverStream stream w1)\<lparr>streamRef := Some stream\<rparr>
                 in case videoRef w2 of
                      None \<Rightarrow> w2
                    | Some video \<Rightarrow>
                        w2\<lparr>videoRef := Some (video\<lparr>srcObject := Some stream\<rparr>),
                           hasStream := True\<rparr>)
            | Rejected err \<Rightarrow>
                w1\<lparr>error := Some streamStartFailedMessage, hasStream := False\<rparr>)
      else w)"

subsection \<open>Device catalog (App.tsx 146-183)\<close>

text \<open>The \<open>catch\<close> clause of \<open>getInitialPermissionAndDevices\<close> (164-175).\<close>

definition initialCatch :: "thrown \<Rightarrow> world \<Rightarrow> world" where
  "initialCatch err w =
     (case err of
        ErrorObject name \<Rightarrow>
          if name = ''NotAllowedError'' \<or> name = ''PermissionDeniedError''
          then w\<lparr>error := Some permissionDeniedMessage\<rparr>
          else w\<lparr>error := Some deviceAccessMessage\<rparr>
      | NonError \<Rightarrow> w\<lparr>error := Some unknownErrorMessage\<rparr>)"

text \<open>
  \<open>getInitialPermissionAndDevices\<close> (147-176), given what the probe \<open>getUserMedia\<close> and
  \<open>enumerateDevices\<close> settle to; a rejected probe never reaches the enumeration.
\<close>

definition getInitialPermissionAndDevices ::
  "MediaStream settled \<Rightarrow> MediaDeviceInfo list settled \<Rightarrow> world \<Rightarrow> world" where
  "getInitialPermissionAndDevices probe enumerated w =
     (case probe of
        Rejected err \<Rightarrow> initialCatch err w
      | Resolved tempStream \<Rightarrow>
          (let w1 = stopTracks tempStream (deliverStream tempStream w)
           in case enumerated of
                Rejected err \<Rightarrow> initialCatch err w1
              | Resolved allDevices \<Rightarrow>
                  (let videoDevices = filter (\<lambda>device. kind device = videoinput) allDevices;
                       w2 = w1\<lparr>devices := videoDevices\<rparr>
                   in if length videoDevices > 0
                      then w2\<lparr>selectedDeviceId := deviceId (videoDevices ! 0), error := None\<rparr>
                      else w2\<lparr>error := Some noDevicesMessage\<rparr>)))"

text \<open>
  The first effect (146-183): \<open>supported\<close> is the test \<open>navigator.mediaDevices &&
  navigator.mediaDevices.getUserMedia\<close>. React then renders the new state.
\<close>

definition initialEffect ::
  "bool \<Rightarrow> MediaStream settled \<Rightarrow> MediaDeviceInfo list settled \<Rightarrow> world \<Rightarrow> world" where
  "initialEffect supported probe enumerated w =
     (if supported then commit w (getInitialPermissionAndDevices probe enumerated w)
      else w\<lparr>error := Some unsupportedMessage\<rparr>)"

subsection \<open>Selection handlers (App.tsx 235-242)\<close>

definition handleDeviceChange :: "string \<Rightarrow> world \<Rightarrow> world" where
  "handleDeviceChange targetValue w = w\<lparr>selectedDeviceId := targetValue\<rparr>"

definition handleResolutionChange :: "string \<Rightarrow> world \<Rightarrow> world" where
  "handleResolutionChange targetValue w =
     (let resolutionIndex = parseInt targetValue
      in w\<lparr>selectedResolution := js_index RESOLUTIONS resolutionIndex\<rparr>)"

text \<open>
  A change of target as the session sees it: the selected device and resolution are set
  and React commits the update, which runs the stream effect again when the pair changed.
\<close>

definition setTarget :: "string \<Rightarrow> resolution option \<Rightarrow> world \<Rightarrow> world" where
  "setTarget device res w = commit w (w\<lparr>selectedDeviceId := device, selectedResolution := res\<rparr>)"

subsection \<open>Fullscreen (App.tsx 223-233, 244-256)\<close>

definition handleFullscreenChange :: "world \<Rightarrow> world" where
  "handleFullscreenChange w = w\<lparr>isFullscreen := (fullscreenElement w \<noteq> None)\<rparr>"

text \<open>What \<open>toggleFullscreen\<close> asks of the browser, if anything.\<close>

definition toggleFullscreen :: "world \<Rightarrow> fullscreen_request option" where
  "toggleFullscreen w =
     (case playerContainerRef w of
        None \<Rightarrow> None
      | Some container \<Rightarrow>
          if fullscreenElement w = None then Some (RequestFullscreen container)
          else if exitFullscreenDefined w then Some ExitFullscreen
          else None)"

text \<open>
  The browser's side of a request: a granted \<open>requestFullscreen\<close> makes the element the
  fullscreen element, a refused one rejects the promise, whose \<open>catch\<close> (248-250) only
  logs; \<open>exitFullscreen\<close> leaves fullscreen. The component's state is not an argument of
  any of these.
\<close>

definition browserAnswers :: "bool \<Rightarrow> fullscreen_request option \<Rightarrow> world \<Rightarrow> world" where
  "browserAnswers granted request w =
     (case request of
        None \<Rightarrow> w
      | Some (RequestFullscreen e) \<Rightarrow> if granted then w\<lparr>fullscreenElement := Some e\<rparr> else w
      | Some ExitFullscreen \<Rightarrow> w\<lparr>fullscreenElement := None\<rparr>)"

subsection \<open>Mounting, unmounting and the events of a run\<close>

text \<open>
  Mounting attaches the refs and runs the three effects; the first one is asynchronous and
  is the event \<open>InitialEffect\<close> below. Unmounting runs the cleanups (216-220, 230-232) and
  React clears the refs.
\<close>

definition mount :: "world \<Rightarrow> world" where
  "mount w =
     (streamEffect (w\<lparr>videoRef := Some \<lparr>srcObject = None\<rparr>,
                      playerContainerRef := Some PlayerContainer\<rparr>))
       \<lparr>fullscreenchangeListener := True\<rparr>"

definition unmount :: "world \<Rightarrow> world" where
  "unmount w =
     (streamEffectCleanup w)
       \<lparr>fullscreenchangeListener := False, videoRef := None, playerContainerRef := None\<rparr>"

datatype event =
    InitialEffect bool "MediaStream settled" "MediaDeviceInfo list settled"
  | DeviceChange string
  | ResolutionChange string
  | GetUserMediaSettled nat "MediaStream settled"
  | ToggleFullscreen bool
  | BrowserFullscreen "element option"
  | FullscreenChange
  | Unmount

text \<open>
  One event of a run. \<open>ToggleFullscreen granted\<close> is a click on the button together with
  the browser's answer; \<open>BrowserFullscreen e\<close> is a change of the fullscreen element that
  the page did not ask for (the escape key); \<open>FullscreenChange\<close> is the delivery of a
  \<open>fullscreenchange\<close> notification, which reaches \<open>handleFullscreenChange\<close> while the
  listener is registered.
\<close>

fun step :: "event \<Rightarrow> world \<Rightarrow> world" where
  "step (InitialEffect supported probe enumerated) w = initialEffect supported probe enumerated w"
| "step (DeviceChange v) w = commit w (handleDeviceChange v w)"
| "step (ResolutionChange v) w = commit w (handleResolutionChange v w)"
| "step (GetUserMediaSettled i outcome) w = commit w (getStreamSettled i outcome w)"
| "step (ToggleFullscreen granted) w = commit w (browserAnswers granted (toggleFullscreen w) w)"
| "step (BrowserFullscreen e) w = w\<lparr>fullscreenElement := e\<rparr>"
| "step FullscreenChange w =
     (if fullscreenchangeListener w then commit w (handleFullscreenChange w) else w)"
| "step Unmount w = unmount w"

fun run :: "event list \<Rightarrow> world \<Rightarrow> world" where
  "run [] w = w"
| "run (e # es) w = run es (step e w)"

subsection \<open>Observations\<close>

text \<open>
  No leaked track: every live track belongs to the stream the session holds in
  \<open>streamRef\<close>, so at most one stream is unreleased.
\<close>

definition noLeakedTracks :: "world \<Rightarrow> bool" where
  "noLeakedTracks w =
     (liveTracks w \<subseteq> (case streamRef w of None \<Rightarrow> {} | Some stream \<Rightarrow> set (tracks stream)))"

text \<open>The live tracks of the held stream.\<close>

definition heldLiveTracks :: "world \<Rightarrow> MediaStreamTrack set" where
  "heldLiveTracks w =
     (case streamRef w of None \<Rightarrow> {} | Some stream \<Rightarrow> set (tracks stream) \<inter> liveTracks w)"

subsection \<open>Concrete devices, streams and runs\<close>

text \<open>
  A microphone and two cameras as \<open>enumerateDevices\<close> may list them, the stream of the
  permission probe and one stream per camera, each with its one video track.
\<close>

definition microphone :: MediaDeviceInfo where
  "microphone =
     \<lparr>deviceId = ''mic0'', kind = audioinput, deviceLabel = ''Microphone'', groupId = ''g0''\<rparr>"

definition cameraA :: MediaDeviceInfo where
  "cameraA =
     \<lparr>deviceId = ''camA'', kind = videoinput, deviceLabel = ''Capture card A'', groupId = ''g1''\<rparr>"

definition cameraB :: MediaDeviceInfo where
  "cameraB = \<lparr>deviceId = ''camB'', kind = videoinput, deviceLabel = [], groupId = ''g2''\<rparr>"

definition probeStream :: MediaStream where
  "probeStream = \<lparr>streamId = ''probe'', tracks = [0]\<rparr>"

definition streamA :: MediaStream where
  "streamA = \<lparr>streamId = ''a'', tracks = [1]\<rparr>"

definition streamB :: MediaStream where
  "streamB = \<lparr>streamId = ''b'', tracks = [2]\<rparr>"

text \<open>
  The page after its first effect found the two cameras: camera A is selected at 720p and
  its acquisition is in flight.
\<close>

definition oneInFlight :: world where
  "oneInFlight =
     run [InitialEffect True (Resolved probeStream) (Resolved [microphone, cameraA, cameraB])]
       (mount initialWorld)"

text \<open>The user picks camera B before that acquisition settles.\<close>

definition twoInFlight :: world where
  "twoInFlight = run [DeviceChange ''camB''] oneInFlight"

text \<open>The acquisition for camera A settles with its stream and nothing else happens.\<close>

definition activeWorld :: world where
  "activeWorld = run [GetUserMediaSettled 0 (Resolved streamA)] oneInFlight"

text \<open>
  Two changes of target on the mounted page, camera A at 480p and then camera B at 1080p,
  with both acquisitions in flight; then the answer for camera B arrives first and the one
  for camera A last.
\<close>

definition twoTargets :: world where
  "twoTargets =
     setTarget ''camB'' (Some (RESOLUTIONS ! 2))
       (setTarget ''camA'' (Some (RESOLUTIONS ! 0)) (mount initialWorld))"

definition staleLast :: world where
  "staleLast =
     run [GetUserMediaSettled 1 (Resolved streamB), GetUserMediaSettled 0 (Resolved streamA)]
       twoTargets"

text \<open>Another element of the page is the fullscreen element while the player is mounted.\<close>

definition otherElementFullscreen :: world where
  "otherElementFullscreen = (mount initialWorld)\<lparr>fullscreenElement := Some OtherElement\<rparr>"

section \<open>Helper lemmas\<close>

lemma commit_same:
  "selectedDeviceId w' = selectedDeviceId w \<Longrightarrow> selectedResolution w' = selectedResolution w
     \<Longrightarrow> commit w w' = w'"
  by (simp add: commit_def)

lemma streamEffectCleanup_frame:
  "devices (streamEffectCleanup w) = devices w"
  "selectedDeviceId (streamEffectCleanup w) = selectedDeviceId w"
  "selectedResolution (streamEffectCleanup w) = selectedResolution w"
  "error (streamEffectCleanup w) = error w"
  "hasStream (streamEffectCleanup w) = hasStream w"
  "isFullscreen (streamEffectCleanup w) = isFullscreen w"
  "videoRef (streamEffectCleanup w) = videoRef w"
  "streamRef (streamEffectCleanup w) = streamRef w"
  "playerContainerRef (streamEffectCleanup w) = playerContainerRef w"
  "pendingGetUserMedia (streamEffectCleanup w) = pendingGetUserMedia w"
  "fullscreenElement (streamEffectCleanup w) = fullscreenElement w"
  "exitFullscreenDefined (streamEffectCleanup w) = exitFullscreenDefined w"
  "fullscreenchangeListener (streamEffectCleanup w) = fullscreenchangeListener w"
  by (simp_all add: streamEffectCleanup_def stopTracks_def split: option.splits)

lemma streamEffect_frame:
  "devices (streamEffect w) = devices w"
  "selectedDeviceId (streamEffect w) = selectedDeviceId w"
  "selectedResolution (streamEffect w) = selectedResolution w"
  "error (streamEffect w) = error w"
  "hasStream (streamEffect w) = hasStream w"
  "isFullscreen (streamEffect w) = isFullscreen w"
  "videoRef (streamEffect w) = videoRef w"
  "streamRef (streamEffect w) = streamRef w"
  "playerContainerRef (streamEffect w) = playerContainerRef w"
  "fullscreenElement (streamEffect w) = fullscreenElement w"
  "exitFullscreenDefined (streamEffect w) = exitFullscreenDefined w"
  "fullscreenchangeListener (streamEffect w) = fullscreenchangeListener w"
  by (simp_all add: streamEffect_def stopTracks_def Let_def split: option.splits)

lemma commit_frame:
  "devices (commit w w') = devices w'"
  "selectedDeviceId (commit w w') = selectedDeviceId w'"
  "selectedResolution (commit w w') = selectedResolution w'"
  "error (commit w w') = error w'"
  "hasStream (commit w w') = hasStream w'"
  "isFullscreen (commit w w') = isFullscreen w'"
  "videoRef (commit w w') = videoRef w'"
  "streamRef (commit w w') = streamRef w'"
  "playerContainerRef (commit w w') = playerContainerRef w'"
  "fullscreenElement (commit w w') = fullscreenElement w'"
  "exitFullscreenDefined (commit w w') = exitFullscreenDefined w'"
  "fullscreenchangeListener (commit w w') = fullscreenchangeListener w'"
  by (simp_all add: commit_def streamEffect_frame streamEffectCleanup_frame)

lemma getStreamSettled_target:
  "selectedDeviceId (getStreamSettled i outcome w) = selectedDeviceId w"
  "selectedResolution (getStreamSettled i outcome w) = selectedResolution w"
  by (simp_all add: getStreamSettled_def deliverStream_def Let_def
        split: settled.splits option.splits)

lemma step_GetUserMediaSettled:
  "step (GetUserMediaSettled i outcome) w = getStreamSettled i outcome w"
  by (simp add: commit_same getStreamSettled_target)

lemma initialCatch_isFullscreen: "isFullscreen (initialCatch err w) = isFullscreen w"
  by (simp add: initialCatch_def split: thrown.splits)

lemma getInitialPermissionAndDevices_isFullscreen:
  "isFullscreen (getInitialPermissionAndDevices probe enumerated w) = isFullscreen w"
  by (simp add: getInitialPermissionAndDevices_def Let_def initialCatch_isFullscreen
        stopTracks_def deliverStream_def split: settled.splits)

lemma getStreamSettled_isFullscreen:
  "isFullscreen (getStreamSettled i outcome w) = isFullscreen w"
  by (simp add: getStreamSettled_def deliverStream_def Let_def
        split: settled.splits option.splits)

lemma browserAnswers_isFullscreen:
  "isFullscreen (browserAnswers granted request w) = isFullscreen w"
  by (simp add: browserAnswers_def split: option.splits fullscreen_request.splits)

text \<open>
  The effect paths release what the session holds: when no track is leaked, a change of
  target leaves no live track at all (the cleanup and the body both stop the held stream
  before the new request is made).
\<close>

lemma target_change_releases_held_stream:
  assumes "noLeakedTracks w"
    and "d \<noteq> selectedDeviceId w \<or> r \<noteq> selectedResolution w"
  shows "liveTracks (setTarget d r w) = {}"
  using assms
  by (auto simp add: setTarget_def commit_def streamEffect_def streamEffectCleanup_def
        stopTracks_def noLeakedTracks_def Let_def split: option.splits)

text \<open>
  A delivered notification leaves the mirrored boolean equal to whether the platform has a
  fullscreen element; the initial state of the page has both false.
\<close>

lemma mirror_in_sync_after_notification:
  assumes "fullscreenchangeListener w"
  shows "isFullscreen (step FullscreenChange w)
           = (fullscreenElement (step FullscreenChange w) \<noteq> None)"
  using assms by (simp add: commit_frame handleFullscreenChange_def)

subsection \<open>The concrete runs, evaluated\<close>

lemma mounted_eq:
  "mount initialWorld =
     \<lparr>devices = [], selectedDeviceId = [], selectedResolution = Some (RESOLUTIONS ! 1),
      error = None, hasStream = False, isFullscreen = False,
      videoRef = Some \<lparr>srcObject = None\<rparr>, streamRef = None,
      playerContainerRef = Some PlayerContainer,
      liveTracks = {}, pendingGetUserMedia = [], fullscreenElement = None,
      exitFullscreenDefined = True, fullscreenchangeListener = True\<rparr>"
  by (simp add: initialWorld_def mount_def streamEffect_def)

lemma oneInFlight_eq:
  "oneInFlight =
     \<lparr>devices = [cameraA, cameraB], selectedDeviceId = ''camA'',
      selectedResolution = Some (RESOLUTIONS ! 1),
      error = None, hasStream = False, isFullscreen = False,
      videoRef = Some \<lparr>srcObject = None\<rparr>, streamRef = None,
      playerContainerRef = Some PlayerContainer,
      liveTracks = {},
      pendingGetUserMedia =
        [\<lparr>deviceIdExact = ''camA'', widthIdeal = 1280, heightIdeal = 720\<rparr>],
      fullscreenElement = None,
      exitFullscreenDefined = True, fullscreenchangeListener = True\<rparr>"
  unfolding oneInFlight_def mounted_eq
  by (simp add: initialEffect_def getInitialPermissionAndDevices_def commit_def
        streamEffect_def streamEffectCleanup_def stopTracks_def deliverStream_def
        Let_def RESOLUTIONS_def microphone_def cameraA_def cameraB_def probeStream_def)

lemma twoInFlight_eq:
  "twoInFlight =
     \<lparr>devices = [cameraA, cameraB], selectedDeviceId = ''camB'',
      selectedResolution = Some (RESOLUTIONS ! 1),
      error = None, hasStream = False, isFullscreen = False,
      videoRef = Some \<lparr>srcObject = None\<rparr>, streamRef = None,
      playerContainerRef = Some PlayerContainer,
      liveTracks = {},
      pendingGetUserMedia =
        [\<lparr>deviceIdExact = ''camA'', widthIdeal = 1280, heightIdeal = 720\<rparr>,
         \<lparr>deviceIdExact = ''camB'', widthIdeal = 1280, heightIdeal = 720\<rparr>],
      fullscreenElement = None,
      exitFullscreenDefined = True, fullscreenchangeListener = True\<rparr>"
  unfolding twoInFlight_def oneInFlight_eq
  by (simp add: commit_def streamEffect_def streamEffectCleanup_def handleDeviceChange_def
        Let_def RESOLUTIONS_def)

lemma activeWorld_eq:
  "activeWorld =
     \<lparr>devices = [cameraA, cameraB], selectedDeviceId = ''camA'',
      selectedResolution = Some (RESOLUTIONS ! 1),
      error = None, hasStream = True, isFullscreen = False,
      videoRef = Some \<lparr>srcObject = Some streamA\<rparr>, streamRef = Some streamA,
      playerContainerRef = Some PlayerContainer,
      liveTracks = {1}, pendingGetUserMedia = [], fullscreenElement = None,
      exitFullscreenDefined = True, fullscreenchangeListener = True\<rparr>"
  unfolding activeWorld_def oneInFlight_eq
  by (simp add: commit_def getStreamSettled_def deliverStream_def streamA_def)

lemma twoTargets_eq:
  "twoTargets =
     \<lparr>devices = [], selectedDeviceId = ''camB'',
      selectedResolution = Some (RESOLUTIONS ! 2),
      error = None, hasStream = False, isFullscreen = False,
      videoRef = Some \<lparr>srcObject = None\<rparr>, streamRef = None,
      playerContainerRef = Some PlayerContainer,
      liveTracks = {},
      pendingGetUserMedia =
        [\<lparr>deviceIdExact = ''camA'', widthIdeal = 640, heightIdeal = 480\<rparr>,
         \<lparr>deviceIdExact = ''camB'', widthIdeal = 1920, heightIdeal = 1080\<rparr>],
      fullscreenElement = None,
      exitFullscreenDefined = True, fullscreenchangeListener = True\<rparr>"
  unfolding twoTargets_def mounted_eq
  by (simp add: setTarget_def commit_def streamEffect_def streamEffectCleanup_def
        Let_def RESOLUTIONS_def)

lemma parseInt_examples:
  "parseInt ''2'' = Num 2" "parseInt ''7'' = Num 7" "parseInt ''-1'' = Num (- 1)"
  "parseInt ''abc'' = NaN" "parseInt [] = NaN" "parseInt '' 3px'' = Num 3"
  by (simp_all add: parseInt_def isWhiteSpace_def isDigit_def digitsValue_def)

section \<open>Capture session\<close>

text \<open>
  Claim C1, as stated: after \<open>setTarget(A, R1)\<close> and \<open>setTarget(B, R2)\<close> with the first
  acquisition still in flight, the final committed state is that of \<open>(B, R2)\<close> and the
  stream delivered for \<open>(A, R1)\<close> is never committed nor rendered. The run \<open>staleLast\<close>
  refutes it: camera B is the selected device, and the stream that answered the request
  for camera A is the one held in \<open>streamRef\<close>, shown by the video element, with its
  track live.
\<close>

theorem stale_stream_committed_counterexample:
  "pendingGetUserMedia twoTargets =
     [\<lparr>deviceIdExact = ''camA'', widthIdeal = 640, heightIdeal = 480\<rparr>,
      \<lparr>deviceIdExact = ''camB'', widthIdeal = 1920, heightIdeal = 1080\<rparr>] \<and>
   selectedDeviceId staleLast = ''camB'' \<and>
   selectedResolution staleLast = Some (RESOLUTIONS ! 2) \<and>
   streamRef staleLast = Some streamA \<and>
   videoRef staleLast = Some \<lparr>srcObject = Some streamA\<rparr> \<and>
   hasStream staleLast \<and>
   set (tracks streamA) \<subseteq> liveTracks staleLast"
  unfolding staleLast_def twoTargets_eq
  by (simp add: commit_def getStreamSettled_def deliverStream_def streamA_def streamB_def)

text \<open>
  Claim C1, amended: after \<open>setTarget(A, R1)\<close> and \<open>setTarget(B, R2)\<close> with the first
  acquisition still in flight, both requests are in flight in the order of issue and the
  selected target is \<open>(B, R2)\<close>. Every stream is committed to \<open>streamRef\<close> and to the video
  element when it arrives, with no staleness check: the stream for \<open>(A, R1)\<close> is committed
  on arrival, and the finally committed stream is the one that arrives last, the one for
  \<open>(B, R2)\<close> when the answers come in the order of the requests and the one for \<open>(A, R1)\<close>
  when they come in the opposite order.
\<close>

theorem setTarget_twice_last_arrival_wins:
  assumes "A \<noteq> []" and "B \<noteq> []"
    and "A \<noteq> selectedDeviceId w \<or> Some R1 \<noteq> selectedResolution w"
    and "B \<noteq> A \<or> R2 \<noteq> R1"
    and "videoRef w = Some video"
    and "w2 = setTarget B (Some R2) (setTarget A (Some R1) w)"
    and "n = length (pendingGetUserMedia w)"
  shows "pendingGetUserMedia w2 = pendingGetUserMedia w @
           [\<lparr>deviceIdExact = A, widthIdeal = width R1, heightIdeal = height R1\<rparr>,
            \<lparr>deviceIdExact = B, widthIdeal = width R2, heightIdeal = height R2\<rparr>] \<and>
         selectedDeviceId w2 = B \<and> selectedResolution w2 = Some R2 \<and>
         streamRef (step (GetUserMediaSettled n (Resolved sA)) w2) = Some sA \<and>
         streamRef (run [GetUserMediaSettled n (Resolved sA),
                         GetUserMediaSettled n (Resolved sB)] w2) = Some sB \<and>
         videoRef (run [GetUserMediaSettled n (Resolved sA),
                        GetUserMediaSettled n (Resolved sB)] w2)
           = Some (video\<lparr>srcObject := Some sB\<rparr>) \<and>
         streamRef (run [GetUserMediaSettled (Suc n) (Resolved sB),
                         GetUserMediaSettled n (Resolved sA)] w2) = Some sA \<and>
         videoRef (run [GetUserMediaSettled (Suc n) (Resolved sB),
                        GetUserMediaSettled n (Resolved sA)] w2)
           = Some (video\<lparr>srcObject := Some sA\<rparr>)"
proof -
  have p: "pendingGetUserMedia w2 = pendingGetUserMedia w @
           [\<lparr>deviceIdExact = A, widthIdeal = width R1, heightIdeal = height R1\<rparr>,
            \<lparr>deviceIdExact = B, widthIdeal = width R2, heightIdeal = height R2\<rparr>]"
    using assms(1-4,6)
    by (auto simp add: setTarget_def commit_def streamEffect_def streamEffectCleanup_def
          stopTracks_def Let_def split: option.splits)
  have t: "selectedDeviceId w2 = B" "selectedResolution w2 = Some R2"
    using assms(6) by (simp_all add: setTarget_def commit_frame)
  have v: "videoRef w2 = Some video"
    using assms(5,6) by (simp add: setTarget_def commit_frame)
  show ?thesis
    using p t v assms(7)
    by (simp add: step_GetUserMediaSettled getStreamSettled_def deliverStream_def Let_def
          del: step.simps)
qed

theorem setTarget_twice_last_arrival_wins_witness:
  "''camA'' \<noteq> [] \<and> ''camB'' \<noteq> [] \<and>
   ''camA'' \<noteq> selectedDeviceId (mount initialWorld) \<and>
   ''camB'' \<noteq> ''camA'' \<and>
   videoRef (mount initialWorld) = Some \<lparr>srcObject = None\<rparr> \<and>
   length (pendingGetUserMedia (mount initialWorld)) = 0 \<and>
   pendingGetUserMedia twoTargets =
     [\<lparr>deviceIdExact = ''camA'', widthIdeal = 640, heightIdeal = 480\<rparr>,
      \<lparr>deviceIdExact = ''camB'', widthIdeal = 1920, heightIdeal = 1080\<rparr>] \<and>
   selectedDeviceId twoTargets = ''camB'' \<and>
   streamRef (run [GetUserMediaSettled 0 (Resolved streamA),
                   GetUserMediaSettled 0 (Resolved streamB)] twoTargets) = Some streamB \<and>
   streamRef (run [GetUserMediaSettled (Suc 0) (Resolved streamB),
                   GetUserMediaSettled 0 (Resolved streamA)] twoTargets) = Some streamA"
proof -
  have h1: "''camA'' \<noteq> []" and h2: "''camB'' \<noteq> []" by simp_all
  have h3: "''camA'' \<noteq> selectedDeviceId (mount initialWorld) \<or>
            Some (RESOLUTIONS ! 0) \<noteq> selectedResolution (mount initialWorld)"
    by (simp add: mounted_eq)
  have h4: "''camB'' \<noteq> ''camA'' \<or> RESOLUTIONS ! 2 \<noteq> RESOLUTIONS ! 0" by simp
  have h5: "videoRef (mount initialWorld) = Some \<lparr>srcObject = None\<rparr>"
    by (simp add: mounted_eq)
  have h6: "twoTargets = setTarget ''camB'' (Some (RESOLUTIONS ! 2))
              (setTarget ''camA'' (Some (RESOLUTIONS ! 0)) (mount initialWorld))"
    by (simp add: twoTargets_def)
  have h7: "0 = length (pendingGetUserMedia (mount initialWorld))"
    by (simp add: mounted_eq)
  show ?thesis
    using setTarget_twice_last_arrival_wins [OF h1 h2 h3 h4 h5 h6 h7, of streamA streamB]
      h5 h7
    by (simp add: RESOLUTIONS_def mounted_eq del: step.simps run.simps)
qed

text \<open>
  Claim C2: over all sequences of target changes at most one stream is held unreleased,
  every replacement of the held stream handle stopping its tracks first. The code breaks
  this when two acquisitions overlap. In the run below the page selects camera A, the user
  picks camera B before the first acquisition settles, then both settle in order: line 201
  overwrites the held stream of camera A with the one of camera B without stopping it, and
  the tracks of both streams are live.
\<close>

theorem overlapping_acquisitions_leak_tracks:
  "liveTracks (run [GetUserMediaSettled 0 (Resolved streamA),
                    GetUserMediaSettled 0 (Resolved streamB)] twoInFlight) = {1, 2} \<and>
   streamRef (run [GetUserMediaSettled 0 (Resolved streamA),
                   GetUserMediaSettled 0 (Resolved streamB)] twoInFlight) = Some streamB \<and>
   \<not> noLeakedTracks (run [GetUserMediaSettled 0 (Resolved streamA),
                          GetUserMediaSettled 0 (Resolved streamB)] twoInFlight)"
  unfolding twoInFlight_eq
  by (auto simp add: commit_def getStreamSettled_def deliverStream_def noLeakedTracks_def
        streamA_def streamB_def)

text \<open>
  Claim C5: when an acquisition fails, the session reports the generic stream-start error
  and clears \<open>hasStream\<close>; nothing is retried and nothing falls back: the failed request
  leaves the requests in flight, no request is added, and the selected device and
  resolution stay as they were.
\<close>

theorem acquisition_failure_no_retry:
  assumes "i < length (pendingGetUserMedia w)"
  shows "error (step (GetUserMediaSettled i (Rejected err)) w) = Some streamStartFailedMessage \<and>
         hasStream (step (GetUserMediaSettled i (Rejected err)) w) = False \<and>
         pendingGetUserMedia (step (GetUserMediaSettled i (Rejected err)) w)
           = take i (pendingGetUserMedia w) @ drop (Suc i) (pendingGetUserMedia w) \<and>
         selectedDeviceId (step (GetUserMediaSettled i (Rejected err)) w) = selectedDeviceId w \<and>
         selectedResolution (step (GetUserMediaSettled i (Rejected err)) w) = selectedResolution w"
  using assms by (simp add: commit_same getStreamSettled_def)

theorem acquisition_failure_no_retry_witness:
  "0 < length (pendingGetUserMedia oneInFlight) \<and>
   error (step (GetUserMediaSettled 0 (Rejected (ErrorObject ''NotReadableError''))) oneInFlight)
     = Some streamStartFailedMessage \<and>
   hasStream (step (GetUserMediaSettled 0 (Rejected (ErrorObject ''NotReadableError''))) oneInFlight)
     = False \<and>
   pendingGetUserMedia
     (step (GetUserMediaSettled 0 (Rejected (ErrorObject ''NotReadableError''))) oneInFlight) = [] \<and>
   selectedDeviceId
     (step (GetUserMediaSettled 0 (Rejected (ErrorObject ''NotReadableError''))) oneInFlight)
     = ''camA''"
proof -
  have h: "0 < length (pendingGetUserMedia oneInFlight)" by (simp add: oneInFlight_eq)
  have p: "pendingGetUserMedia oneInFlight
             = [\<lparr>deviceIdExact = ''camA'', widthIdeal = 1280, heightIdeal = 720\<rparr>]"
    and d: "selectedDeviceId oneInFlight = ''camA''"
    by (simp_all add: oneInFlight_eq)
  show ?thesis
    using acquisition_failure_no_retry [OF h, of "ErrorObject ''NotReadableError''"] h
    by (simp add: p d del: step.simps)
qed

text \<open>
  Claim C6: unmounting the view while a stream is held stops every track of that stream,
  so the session holds no live track afterwards; when the held stream was the only one
  with live tracks, no track at all is live afterwards.
\<close>

theorem unmount_stops_held_tracks:
  assumes "streamRef w = Some stream"
  shows "(\<forall>t \<in> set (tracks stream). t \<notin> liveTracks (step Unmount w)) \<and>
         heldLiveTracks (step Unmount w) = {} \<and>
         (noLeakedTracks w \<longrightarrow> liveTracks (step Unmount w) = {})"
  using assms
  by (auto simp add: unmount_def streamEffectCleanup_def stopTracks_def heldLiveTracks_def
        noLeakedTracks_def)

theorem unmount_stops_held_tracks_witness:
  "streamRef activeWorld = Some streamA \<and> noLeakedTracks activeWorld \<and>
   liveTracks activeWorld = {1} \<and>
   1 \<notin> liveTracks (step Unmount activeWorld) \<and>
   heldLiveTracks (step Unmount activeWorld) = {} \<and>
   liveTracks (step Unmount activeWorld) = {}"
proof -
  have h: "streamRef activeWorld = Some streamA" by (simp add: activeWorld_eq)
  have n: "noLeakedTracks activeWorld"
    by (simp add: activeWorld_eq noLeakedTracks_def streamA_def)
  have l: "liveTracks activeWorld = {1}" by (simp add: activeWorld_eq)
  have t: "tracks streamA = [1]" by (simp add: streamA_def)
  show ?thesis
    using unmount_stops_held_tracks [OF h] h n l
    by (simp add: t del: step.simps)
qed

section \<open>Device catalog\<close>

text \<open>
  Claim C3: when the first effect has enumerated the devices, the catalog holds the
  video-input devices; if there is one, the first is the selected device and no error is
  shown; if there is none, the no-camera-found error is shown and the selection is left
  as it was (the empty identifier of the initial state).
\<close>

theorem device_catalog_default_selection:
  "devices (initialEffect True (Resolved tempStream) (Resolved allDevices) w)
     = filter (\<lambda>device. kind device = videoinput) allDevices \<and>
   (filter (\<lambda>device. kind device = videoinput) allDevices \<noteq> [] \<longrightarrow>
      selectedDeviceId (initialEffect True (Resolved tempStream) (Resolved allDevices) w)
        = deviceId (hd (filter (\<lambda>device. kind device = videoinput) allDevices)) \<and>
      error (initialEffect True (Resolved tempStream) (Resolved allDevices) w) = None) \<and>
   (filter (\<lambda>device. kind device = videoinput) allDevices = [] \<longrightarrow>
      error (initialEffect True (Resolved tempStream) (Resolved allDevices) w)
        = Some noDevicesMessage \<and>
      selectedDeviceId (initialEffect True (Resolved tempStream) (Resolved allDevices) w)
        = selectedDeviceId w)"
  by (simp add: initialEffect_def commit_frame getInitialPermissionAndDevices_def Let_def
        stopTracks_def deliverStream_def hd_conv_nth)

theorem device_catalog_default_selection_witness:
  "filter (\<lambda>device. kind device = videoinput) [microphone, cameraA, cameraB] \<noteq> [] \<and>
   selectedDeviceId (initialEffect True (Resolved probeStream)
      (Resolved [microphone, cameraA, cameraB]) (mount initialWorld)) = ''camA'' \<and>
   error (initialEffect True (Resolved probeStream)
      (Resolved [microphone, cameraA, cameraB]) (mount initialWorld)) = None \<and>
   filter (\<lambda>device. kind device = videoinput) [microphone] = [] \<and>
   error (initialEffect True (Resolved probeStream) (Resolved [microphone]) (mount initialWorld))
     = Some noDevicesMessage \<and>
   selectedDeviceId (initialEffect True (Resolved probeStream) (Resolved [microphone])
      (mount initialWorld)) = []"
proof -
  have k: "kind microphone = audioinput" "kind cameraA = videoinput"
    "kind cameraB = videoinput" "deviceId cameraA = ''camA''"
    by (simp_all add: microphone_def cameraA_def cameraB_def)
  have s: "selectedDeviceId (mount initialWorld) = []" by (simp add: mounted_eq)
  show ?thesis
    using device_catalog_default_selection
            [of probeStream "[microphone, cameraA, cameraB]" "mount initialWorld"]
          device_catalog_default_selection [of probeStream "[microphone]" "mount initialWorld"]
    by (simp add: k s)
qed

text \<open>
  Claim C4: when the platform refuses the initial permission probe (the probe rejects with
  an \<open>Error\<close> named \<open>NotAllowedError\<close>, or \<open>PermissionDeniedError\<close> on older browsers), the
  error reported is the permission-denied message and not the generic stream-start one.
\<close>

theorem permission_refusal_reports_denied:
  assumes "name = ''NotAllowedError'' \<or> name = ''PermissionDeniedError''"
  shows "error (initialEffect True (Rejected (ErrorObject name)) enumerated w)
           = Some permissionDeniedMessage \<and>
         error (initialEffect True (Rejected (ErrorObject name)) enumerated w)
           \<noteq> Some streamStartFailedMessage"
proof -
  have e: "error (initialEffect True (Rejected (ErrorObject name)) enumerated w)
             = Some permissionDeniedMessage"
    using assms
    by (simp add: initialEffect_def commit_frame getInitialPermissionAndDevices_def
          initialCatch_def)
  have "permissionDeniedMessage \<noteq> streamStartFailedMessage"
    by (simp add: permissionDeniedMessage_def streamStartFailedMessage_def)
  with e show ?thesis by simp
qed

theorem permission_refusal_reports_denied_witness:
  "(''NotAllowedError'' = ''NotAllowedError'' \<or> ''NotAllowedError'' = ''PermissionDeniedError'') \<and>
   error (initialEffect True (Rejected (ErrorObject ''NotAllowedError'')) (Resolved [])
            (mount initialWorld)) = Some permissionDeniedMessage \<and>
   error (initialEffect True (Rejected (ErrorObject ''NotAllowedError'')) (Resolved [])
            (mount initialWorld)) \<noteq> Some streamStartFailedMessage"
proof -
  have h: "''NotAllowedError'' = ''NotAllowedError'' \<or> ''NotAllowedError'' = ''PermissionDeniedError''"
    by simp
  show ?thesis
    using permission_refusal_reports_denied [OF h, of "Resolved []" "mount initialWorld"] h
    by blast
qed

section \<open>Fullscreen\<close>

text \<open>
  Claim C7, as stated: the toggle requests fullscreen on the managed container whenever
  the platform's fullscreen element is not that container. It does not: with another
  element in fullscreen and the container mounted, the toggle asks to leave fullscreen.
\<close>

theorem toggle_other_element_counterexample:
  "playerContainerRef otherElementFullscreen = Some PlayerContainer \<and>
   fullscreenElement otherElementFullscreen \<noteq> Some PlayerContainer \<and>
   toggleFullscreen otherElementFullscreen \<noteq> Some (RequestFullscreen PlayerContainer) \<and>
   toggleFullscreen otherElementFullscreen = Some ExitFullscreen"
  by (simp add: otherElementFullscreen_def mounted_eq toggleFullscreen_def)

text \<open>
  Claim C7, amended: with the managed container mounted, the toggle requests fullscreen on
  the container if the platform has no fullscreen element at all; otherwise, whichever
  element is in fullscreen, it requests exit from fullscreen, provided the platform
  defines \<open>exitFullscreen\<close>. With no container mounted, or with a fullscreen element and
  no \<open>exitFullscreen\<close>, it requests nothing.
\<close>

theorem toggleFullscreen_requests:
  "(playerContainerRef w = Some container \<and> fullscreenElement w = None \<longrightarrow>
      toggleFullscreen w = Some (RequestFullscreen container)) \<and>
   (playerContainerRef w = Some container \<and> fullscreenElement w \<noteq> None \<and>
      exitFullscreenDefined w \<longrightarrow>
      toggleFullscreen w = Some ExitFullscreen) \<and>
   (playerContainerRef w = None \<or> (fullscreenElement w \<noteq> None \<and> \<not> exitFullscreenDefined w) \<longrightarrow>
      toggleFullscreen w = None)"
  by (auto simp add: toggleFullscreen_def split: option.splits)

theorem toggleFullscreen_requests_witness:
  "playerContainerRef (mount initialWorld) = Some PlayerContainer \<and>
   fullscreenElement (mount initialWorld) = None \<and>
   toggleFullscreen (mount initialWorld) = Some (RequestFullscreen PlayerContainer) \<and>
   playerContainerRef (step (ToggleFullscreen True) (mount initialWorld)) = Some PlayerContainer \<and>
   fullscreenElement (step (ToggleFullscreen True) (mount initialWorld)) \<noteq> None \<and>
   exitFullscreenDefined (step (ToggleFullscreen True) (mount initialWorld)) \<and>
   toggleFullscreen (step (ToggleFullscreen True) (mount initialWorld)) = Some ExitFullscreen \<and>
   playerContainerRef initialWorld = None \<and>
   toggleFullscreen initialWorld = None"
proof -
  have a: "playerContainerRef (mount initialWorld) = Some PlayerContainer \<and>
           fullscreenElement (mount initialWorld) = None"
    by (simp add: mounted_eq)
  have b: "playerContainerRef (step (ToggleFullscreen True) (mount initialWorld))
             = Some PlayerContainer \<and>
           fullscreenElement (step (ToggleFullscreen True) (mount initialWorld)) \<noteq> None \<and>
           exitFullscreenDefined (step (ToggleFullscreen True) (mount initialWorld))"
    by (simp add: mounted_eq commit_def toggleFullscreen_def browserAnswers_def)
  have c: "playerContainerRef initialWorld = None" by (simp add: initialWorld_def)
  show ?thesis
    using toggleFullscreen_requests [of "mount initialWorld" PlayerContainer]
          toggleFullscreen_requests
            [of "step (ToggleFullscreen True) (mount initialWorld)" PlayerContainer]
          toggleFullscreen_requests [of initialWorld PlayerContainer]
          a b c
    by (simp del: step.simps)
qed

text \<open>
  Claim C8: with the container mounted, the listener registered and the mirrored boolean
  equal to whether the platform has a fullscreen element (either value), two toggles that
  the platform honours bring the mirrored boolean back to its starting value once both
  \<open>fullscreenchange\<close> notifications are delivered, whether each notification arrives
  before the next toggle or both arrive after the second one.
\<close>

theorem toggle_twice_restores_mirror:
  assumes "playerContainerRef w \<noteq> None" and "exitFullscreenDefined w"
    and "fullscreenchangeListener w"
    and "isFullscreen w = (fullscreenElement w \<noteq> None)"
  shows "isFullscreen (run [ToggleFullscreen True, FullscreenChange,
                            ToggleFullscreen True, FullscreenChange] w) = isFullscreen w \<and>
         isFullscreen (run [ToggleFullscreen True, ToggleFullscreen True,
                            FullscreenChange, FullscreenChange] w) = isFullscreen w"
proof -
  obtain c where c: "playerContainerRef w = Some c" using assms(1) by auto
  show ?thesis
  proof (cases "fullscreenElement w")
    case None
    with c assms show ?thesis
      by (simp add: commit_same browserAnswers_def toggleFullscreen_def handleFullscreenChange_def)
  next
    case (Some e)
    with c assms show ?thesis
      by (simp add: commit_same browserAnswers_def toggleFullscreen_def handleFullscreenChange_def)
  qed
qed

theorem toggle_twice_restores_mirror_witness:
  "playerContainerRef (mount initialWorld) \<noteq> None \<and> exitFullscreenDefined (mount initialWorld) \<and>
   fullscreenchangeListener (mount initialWorld) \<and>
   isFullscreen (mount initialWorld) = (fullscreenElement (mount initialWorld) \<noteq> None) \<and>
   isFullscreen (run [ToggleFullscreen True, FullscreenChange] (mount initialWorld)) = True \<and>
   isFullscreen (run [ToggleFullscreen True, FullscreenChange,
                      ToggleFullscreen True, FullscreenChange] (mount initialWorld)) = False"
proof -
  have h1: "playerContainerRef (mount initialWorld) \<noteq> None"
    and h2: "exitFullscreenDefined (mount initialWorld)"
    and h3: "fullscreenchangeListener (mount initialWorld)"
    and h4: "isFullscreen (mount initialWorld) = (fullscreenElement (mount initialWorld) \<noteq> None)"
    by (simp_all add: mounted_eq)
  have m: "isFullscreen (run [ToggleFullscreen True, FullscreenChange] (mount initialWorld))"
    by (simp add: mounted_eq commit_def toggleFullscreen_def browserAnswers_def
          handleFullscreenChange_def)
  have i: "isFullscreen (mount initialWorld) = False" by (simp add: mounted_eq)
  show ?thesis
    using toggle_twice_restores_mirror [OF h1 h2 h3 h4] h1 h2 h3 h4 m i
    by (simp del: step.simps run.simps)
qed

text \<open>
  Claim C9: the mirrored fullscreen boolean changes only in the \<open>fullscreenchange\<close>
  listener. No other event changes it, the toggle neither when the platform grants its
  request nor when it refuses; a delivered notification sets it to whether the platform
  has a fullscreen element (and does nothing once the listener is removed).
\<close>

theorem isFullscreen_only_by_listener:
  "(e \<noteq> FullscreenChange \<longrightarrow> isFullscreen (step e w) = isFullscreen w) \<and>
   (fullscreenchangeListener w \<longrightarrow>
      isFullscreen (step FullscreenChange w) = (fullscreenElement w \<noteq> None)) \<and>
   (\<not> fullscreenchangeListener w \<longrightarrow>
      isFullscreen (step FullscreenChange w) = isFullscreen w)"
proof (intro conjI impI)
  assume "e \<noteq> FullscreenChange"
  then show "isFullscreen (step e w) = isFullscreen w"
  proof (cases e)
    case (InitialEffect supported probe enumerated)
    then show ?thesis
      by (simp add: initialEffect_def commit_frame getInitialPermissionAndDevices_isFullscreen)
  next
    case (DeviceChange v)
    then show ?thesis by (simp add: commit_frame handleDeviceChange_def)
  next
    case (ResolutionChange v)
    then show ?thesis by (simp add: commit_frame handleResolutionChange_def)
  next
    case (GetUserMediaSettled i outcome)
    then show ?thesis by (simp add: commit_frame getStreamSettled_isFullscreen)
  next
    case (ToggleFullscreen granted)
    then show ?thesis by (simp add: commit_frame browserAnswers_isFullscreen)
  next
    case (BrowserFullscreen x)
    then show ?thesis by simp
  next
    case Unmount
    then show ?thesis by (simp add: unmount_def streamEffectCleanup_frame)
  qed simp
next
  assume "fullscreenchangeListener w"
  then show "isFullscreen (step FullscreenChange w) = (fullscreenElement w \<noteq> None)"
    by (simp add: commit_frame handleFullscreenChange_def)
next
  assume "\<not> fullscreenchangeListener w"
  then show "isFullscreen (step FullscreenChange w) = isFullscreen w" by simp
qed

theorem isFullscreen_only_by_listener_witness:
  "ToggleFullscreen True \<noteq> FullscreenChange \<and>
   fullscreenElement (step (ToggleFullscreen True) (mount initialWorld)) = Some PlayerContainer \<and>
   isFullscreen (step (ToggleFullscreen True) (mount initialWorld)) = False \<and>
   fullscreenchangeListener (step (ToggleFullscreen True) (mount initialWorld)) \<and>
   isFullscreen (step FullscreenChange (step (ToggleFullscreen True) (mount initialWorld))) = True \<and>
   \<not> fullscreenchangeListener initialWorld \<and>
   isFullscreen (step FullscreenChange initialWorld) = False"
proof -
  have a: "fullscreenElement (step (ToggleFullscreen True) (mount initialWorld))
             = Some PlayerContainer"
    and b: "fullscreenchangeListener (step (ToggleFullscreen True) (mount initialWorld))"
    by (simp_all add: mounted_eq commit_def toggleFullscreen_def browserAnswers_def)
  have c: "isFullscreen (mount initialWorld) = False" by (simp add: mounted_eq)
  have d: "\<not> fullscreenchangeListener initialWorld" and e: "isFullscreen initialWorld = False"
    by (simp_all add: initialWorld_def)
  show ?thesis
    using isFullscreen_only_by_listener [of "ToggleFullscreen True" "mount initialWorld"]
          isFullscreen_only_by_listener
            [of FullscreenChange "step (ToggleFullscreen True) (mount initialWorld)"]
          isFullscreen_only_by_listener [of FullscreenChange initialWorld]
          a b c d e
    by (simp del: step.simps)
qed

section \<open>Resolution selection\<close>

text \<open>
  Claim C10: the resolution handler parses the selected value as an integer and indexes
  \<open>RESOLUTIONS\<close> with no bounds check. A value that parses to 0, 1, 2 or 3 selects the
  resolution at that index; every other value (an index out of range, or no number at
  all) leaves the selected resolution undefined, and no error is raised. Nothing else of
  the state changes.
\<close>

theorem handleResolutionChange_unchecked_index:
  "handleResolutionChange v w =
     w\<lparr>selectedResolution :=
         (if parseInt v = Num 0
            then Some \<lparr>label = ''480p (640x480)'', width = 640, height = 480\<rparr>
          else if parseInt v = Num 1
            then Some \<lparr>label = ''720p (1280x720)'', width = 1280, height = 720\<rparr>
          else if parseInt v = Num 2
            then Some \<lparr>label = ''1080p (1920x1080)'', width = 1920, height = 1080\<rparr>
          else if parseInt v = Num 3
            then Some \<lparr>label = ''4K (3840x2160)'', width = 3840, height = 2160\<rparr>
          else None)\<rparr>"
proof (cases "parseInt v")
  case NaN
  then show ?thesis by (simp add: handleResolutionChange_def js_index_def)
next
  case (Num i)
  have len: "length RESOLUTIONS = 4" by (simp add: RESOLUTIONS_def)
  consider "i < 0" | "i = 0" | "i = 1" | "i = 2" | "i = 3" | "3 < i" by linarith
  then show ?thesis
  proof cases
    case 1
    with Num show ?thesis by (simp add: handleResolutionChange_def js_index_def)
  next
    case 2
    with Num show ?thesis by (simp add: handleResolutionChange_def js_index_def RESOLUTIONS_def)
  next
    case 3
    with Num show ?thesis by (simp add: handleResolutionChange_def js_index_def RESOLUTIONS_def)
  next
    case 4
    with Num show ?thesis by (simp add: handleResolutionChange_def js_index_def RESOLUTIONS_def)
  next
    case 5
    with Num show ?thesis by (simp add: handleResolutionChange_def js_index_def RESOLUTIONS_def)
  next
    case 6
    with Num len show ?thesis by (simp add: handleResolutionChange_def js_index_def)
  qed
qed

theorem handleResolutionChange_unchecked_index_witness:
  "selectedResolution (handleResolutionChange ''2'' (mount initialWorld))
     = Some \<lparr>label = ''1080p (1920x1080)'', width = 1920, height = 1080\<rparr> \<and>
   selectedResolution (handleResolutionChange ''7'' (mount initialWorld)) = None \<and>
   selectedResolution (handleResolutionChange ''-1'' (mount initialWorld)) = None \<and>
   selectedResolution (handleResolutionChange ''abc'' (mount initialWorld)) = None"
  using handleResolutionChange_unchecked_index [of "''2''" "mount initialWorld"]
        handleResolutionChange_unchecked_index [of "''7''" "mount initialWorld"]
        handleResolutionChange_unchecked_index [of "''-1''" "mount initialWorld"]
        handleResolutionChange_unchecked_index [of "''abc''" "mount initialWorld"]
  by (simp add: parseInt_examples)

end
